theory Spec2Isabelle
  imports Main
begin

section \<open>Hamming(7,4) codec of \<open>hamming_code.py\<close>\<close>

text \<open>
  The development embeds the two classes of \<open>hamming_code.py\<close>: \<open>Support\<close>
  (input validation and fault injection) and \<open>Hamming\<close> (the matrices, \<open>encoder\<close>,
  \<open>parity_check\<close>, \<open>decoder\<close>).

  Conventions of the embedding.
  \<^item> A NumPy integer array is an \<open>int list\<close>; a matrix is a list of rows. All values
    that occur are far inside the 64-bit range, so \<open>int\<close> arithmetic is exact.
  \<^item> A raised exception is \<open>Inl e\<close>, a normal return is \<open>Inr v\<close>.
  \<^item> The methods report through \<open>print\<close>. Each \<open>print\<close> statement of the source is
    one constructor of \<open>printed\<close>, carrying the values the f-string interpolates; a
    method yields the list of lines it printed, in order.
  \<^item> \<open>check_input\<close> hands a NumPy array back as the same object, so the methods
    that assign to an element mutate the caller's array. Those methods yield the
    contents of that array after the call as well.
  \<^item> The inputs modelled are sequences of Python integers (a list of ints or an
    integer array). The other literal forms \<open>check_input\<close> accepts (an int, a
    digit string) and inputs of other types are outside the embedding.
\<close>

subsection \<open>Exceptions, returned values, printed lines\<close>

text \<open>
  The exceptions of the module. \<open>check_input\<close> raises \<open>TypeError\<close> only for an
  input that is no int, list, string or array, so no sequence of integers meets it.
\<close>

datatype error = TypeError | ValueError | IndexError

text \<open>What a method hands back: \<open>None\<close>, an array, or a tuple of values.\<close>

datatype pyval = PyNone | PyArray "int list" | PyTuple "pyval list"

datatype printed =
    SevenBitCodeword "int list"
      \<comment> \<open>encoder: \<open>The 7-bit codeword is {codeword}.\<close>\<close>
  | ErrorVector "int list"
      \<comment> \<open>parity_check: \<open>The error vector is {error_syndrome}.\<close>\<close>
  | NoTransmissionError
      \<comment> \<open>parity_check: \<open>There was no error occurring upon code transmission.\<close>\<close>
  | CannotBeCorrected
      \<comment> \<open>parity_check: \<open>The sum of the error syndrome elements is 1. ... Either way,
          the error cannot be corrected.\<close>\<close>
  | BitflipOccurredAt int
      \<comment> \<open>parity_check: \<open>There was an error ... and the error can be corrected. The
          Bitflip occurred at the {bitflip_pos}th position.\<close>\<close>
  | NoBitflipError
      \<comment> \<open>decoder: \<open>There is no bitflip error in the codeword to be corrected.\<close>\<close>
  | CannotBeDecoded
      \<comment> \<open>decoder: \<open>The sum of the error syndrome elements is 1. ... In these cases,
          the error cannot be decoded.\<close>\<close>
  | BitWasFlipped int
      \<comment> \<open>decoder: \<open>The bit at position {bitflip_pos} was flipped.\<close>\<close>
  | CorrectedCodeword "int list"
      \<comment> \<open>decoder: \<open>The corrected codeword is {codeword}.\<close>\<close>
  | OriginalVector "int list"
      \<comment> \<open>decoder: \<open>The original 4-bit vector is {binary_decoded}.\<close>\<close>

subsection \<open>Class \<open>Support\<close>\<close>

text \<open>
  \<open>check_input\<close> on a sequence of Python integers: the size test, then the dtype
  test, then the element test. The array of an empty sequence has a floating-point
  dtype and fails the dtype test, as does an integer outside the 64-bit range; any
  other element outside \<open>{0, 1}\<close> fails the last test. All of them raise
  \<open>ValueError\<close>.
\<close>

definition check_input :: "int list \<Rightarrow> nat \<Rightarrow> error + int list" where
  "check_input x input_length =
     (if length x \<noteq> input_length then Inl ValueError
      else if x = [] then Inl ValueError
      else if \<not> list_all (\<lambda>v. v = 0 \<or> v = 1) x then Inl ValueError
      else Inr x)"

text \<open>
  Element access \<open>x[i]\<close> of a one-dimensional array: an index below zero counts from
  the end, and an index outside \<open>-len(x) .. len(x) - 1\<close> raises \<open>IndexError\<close>.
\<close>

definition array_index :: "int list \<Rightarrow> int \<Rightarrow> error + nat" where
  "array_index x i =
     (if 0 \<le> i \<and> i < int (length x) then Inr (nat i)
      else if i < 0 \<and> - int (length x) \<le> i then Inr (nat (int (length x) + i))
      else Inl IndexError)"

text \<open>The assignment \<open>x[i] = 1 - x[i]\<close>.\<close>

definition flip_item :: "int list \<Rightarrow> int \<Rightarrow> error + int list" where
  "flip_item x i =
     (case array_index x i of
        Inl e \<Rightarrow> Inl e
      | Inr j \<Rightarrow> Inr (x[j := 1 - x ! j]))"

text \<open>
  \<open>bitflip_specific\<close>. The result is the outcome (the exception, or the array
  returned) paired with the contents of the array object after the call.
\<close>

definition bitflip_specific :: "int list \<Rightarrow> int \<Rightarrow> (error + int list) \<times> int list" where
  "bitflip_specific x bit_to_flip =
     (case check_input x 7 of
        Inl e \<Rightarrow> (Inl e, x)
      | Inr x1 \<Rightarrow>
          if bit_to_flip > 6 then (Inl ValueError, x1)
          else (case flip_item x1 bit_to_flip of
                  Inl e \<Rightarrow> (Inl e, x1)
                | Inr x2 \<Rightarrow> (Inr x2, x2)))"

text \<open>
  The \<open>while True\<close> loop of \<open>bitflip_rand\<close>. The successive results of
  \<open>random.randint(0, 6)\<close> are the list \<open>draws\<close>; one draw is consumed per iteration.
  \<open>flip_if_new\<close> is the first \<open>if\<close> of the loop body, the test on \<open>card\<close> is the
  second one with its \<open>break\<close>. \<open>None\<close> means that the loop has not reached its
  \<open>break\<close> when the draws given are used up.
\<close>

definition flip_if_new :: "int \<Rightarrow> int set \<Rightarrow> int list \<Rightarrow> error + (int set \<times> int list)" where
  "flip_if_new i flipped_bits x =
     (if i \<notin> flipped_bits then
        (case flip_item x i of
           Inl e \<Rightarrow> Inl e
         | Inr x' \<Rightarrow> Inr (insert i flipped_bits, x'))
      else Inr (flipped_bits, x))"

fun bitflip_loop ::
  "int list \<Rightarrow> int set \<Rightarrow> int list \<Rightarrow> int \<Rightarrow> ((error + int list) \<times> int list) option" where
  "bitflip_loop [] flipped_bits x number_of_bits_to_flip = None"
| "bitflip_loop (i # draws) flipped_bits x number_of_bits_to_flip =
     (case flip_if_new i flipped_bits x of
        Inl e \<Rightarrow> Some (Inl e, x)
      | Inr (flipped_bits', x') \<Rightarrow>
          if int (card flipped_bits') = number_of_bits_to_flip then Some (Inr x', x')
          else bitflip_loop draws flipped_bits' x' number_of_bits_to_flip)"

definition bitflip_rand ::
  "int list \<Rightarrow> int list \<Rightarrow> int \<Rightarrow> ((error + int list) \<times> int list) option" where
  "bitflip_rand draws x number_of_bits_to_flip =
     (case check_input x 7 of
        Inl e \<Rightarrow> Some (Inl e, x)
      | Inr x1 \<Rightarrow>
          if number_of_bits_to_flip > 2 then Some (Inl ValueError, x1)
          else bitflip_loop draws {} x1 number_of_bits_to_flip)"

subsection \<open>Class \<open>Hamming\<close>\<close>

definition G :: "int list list" where
  "G = [[1, 1, 0, 1],
        [1, 0, 1, 1],
        [1, 0, 0, 0],
        [0, 1, 1, 1],
        [0, 1, 0, 0],
        [0, 0, 1, 0],
        [0, 0, 0, 1]]"

definition H :: "int list list" where
  "H = [[1, 0, 1, 0, 1, 0, 1],
        [0, 1, 1, 0, 0, 1, 1],
        [0, 0, 0, 1, 1, 1, 1]]"

definition R :: "int list list" where
  "R = [[0, 0, 1, 0, 0, 0, 0],
        [0, 0, 0, 0, 1, 0, 0],
        [0, 0, 0, 0, 0, 1, 0],
        [0, 0, 0, 0, 0, 0, 1]]"

text \<open>
  \<open>np.matmul\<close> of a matrix and a vector, and the elementwise \<open>% 2\<close>. Every caller
  has checked the vector's length against the matrix, so the shapes agree.
\<close>

definition matmul :: "int list list \<Rightarrow> int list \<Rightarrow> int list" where
  "matmul M v = map (\<lambda>row. sum_list (map2 (*) row v)) M"

definition mod2 :: "int list \<Rightarrow> int list" where
  "mod2 v = map (\<lambda>a. a mod 2) v"

text \<open>\<open>list.index\<close>: the position of the first equal element, or \<open>ValueError\<close>.\<close>

fun list_index :: "'a list \<Rightarrow> 'a \<Rightarrow> error + int" where
  "list_index [] v = Inl ValueError"
| "list_index (y # ys) v =
     (if y = v then Inr 0
      else (case list_index ys v of Inl e \<Rightarrow> Inl e | Inr k \<Rightarrow> Inr (k + 1)))"

text \<open>\<open>encoder\<close>: the outcome and the lines printed.\<close>

definition encoder :: "int list \<Rightarrow> (error + int list) \<times> printed list" where
  "encoder inp =
     (case check_input inp 4 of
        Inl e \<Rightarrow> (Inl e, [])
      | Inr input \<Rightarrow>
          (let codeword = mod2 (matmul G input)
           in (Inr codeword, [SevenBitCodeword codeword])))"

text \<open>The expression \<open>np.matmul(Hamming.H, codeword) % 2\<close> of both checking methods.\<close>

definition error_syndrome :: "int list \<Rightarrow> int list" where
  "error_syndrome codeword = mod2 (matmul H codeword)"

text \<open>\<open>parity_check\<close>: the outcome and the lines printed. It assigns to no array.\<close>

definition parity_check :: "int list \<Rightarrow> (error + pyval) \<times> printed list" where
  "parity_check cw =
     (case check_input cw 7 of
        Inl e \<Rightarrow> (Inl e, [])
      | Inr codeword \<Rightarrow>
          (let s = error_syndrome codeword;
               sum_error_syndrome = sum_list s
           in if sum_error_syndrome = 0 then
                (Inr PyNone, [ErrorVector s, NoTransmissionError])
              else if sum_error_syndrome = 1 then
                (Inr PyNone, [ErrorVector s, CannotBeCorrected])
              else
                (case list_index (transpose H) s of
                   Inl e \<Rightarrow> (Inl e, [ErrorVector s])
                 | Inr list_parity_index \<Rightarrow>
                     (Inr PyNone, [ErrorVector s, BitflipOccurredAt (list_parity_index + 1)]))))"

text \<open>
  \<open>decoder\<close>: the outcome, the lines printed and the contents of the codeword array
  after the call.
\<close>

definition decoder :: "int list \<Rightarrow> (error + pyval) \<times> printed list \<times> int list" where
  "decoder cw =
     (case check_input cw 7 of
        Inl e \<Rightarrow> (Inl e, [], cw)
      | Inr codeword \<Rightarrow>
          (let s = error_syndrome codeword;
               sum_error_syndrome = sum_list s
           in if sum_error_syndrome = 0 then
                (Inr PyNone,
                 [NoBitflipError, OriginalVector (mod2 (matmul R codeword))],
                 codeword)
              else if sum_error_syndrome = 1 then
                (Inr PyNone, [CannotBeDecoded], codeword)
              else
                (case list_index (transpose H) s of
                   Inl e \<Rightarrow> (Inl e, [], codeword)
                 | Inr list_parity_index \<Rightarrow>
                     (let bitflip_pos = list_parity_index + 1
                      in (case array_index codeword (bitflip_pos - 1) of
                            Inl e \<Rightarrow> (Inl e, [BitWasFlipped bitflip_pos], codeword)
                          | Inr j \<Rightarrow>
                              (let corrected =
                                     codeword[j := (if codeword ! j = 0 then 1 else 0)]
                               in (Inr PyNone,
                                   [BitWasFlipped bitflip_pos,
                                    CorrectedCodeword corrected,
                                    OriginalVector (mod2 (matmul R corrected))],
                                   corrected)))))))"

section \<open>Auxiliary facts\<close>

subsection \<open>Validated vectors\<close>

lemma check_input_Inr:
  "check_input x n = Inr y \<longleftrightarrow> y = x \<and> length x = n \<and> x \<noteq> [] \<and> set x \<subseteq> {0, 1}"
  by (auto simp: check_input_def list_all_iff)

lemma check_input_valid:
  "length x = n \<Longrightarrow> set x \<subseteq> {0, 1} \<Longrightarrow> 0 < n \<Longrightarrow> check_input x n = Inr x"
  by (auto simp: check_input_Inr)

lemma check_input_empty: "check_input [] n = Inl ValueError"
  by (simp add: check_input_def)

lemma four_bits:
  assumes "length m = 4" and "set m \<subseteq> {0, 1}"
  shows "\<exists>a b c d. m = [a, b, c, d] \<and> (a = 0 \<or> a = 1) \<and> (b = 0 \<or> b = 1)
           \<and> (c = 0 \<or> c = 1) \<and> (d = 0 \<or> d = 1)"
proof -
  from assms(1) obtain a b c d where "m = [a, b, c, d]"
    by (auto simp: eval_nat_numeral length_Suc_conv)
  with assms(2) show ?thesis by simp
qed

lemma seven_bits:
  assumes "length x = 7" and "set x \<subseteq> {0, 1}"
  shows "\<exists>a b c d e f g. x = [a, b, c, d, e, f, g] \<and> (a = 0 \<or> a = 1) \<and> (b = 0 \<or> b = 1)
           \<and> (c = 0 \<or> c = 1) \<and> (d = 0 \<or> d = 1) \<and> (e = 0 \<or> e = 1) \<and> (f = 0 \<or> f = 1)
           \<and> (g = 0 \<or> g = 1)"
proof -
  from assms(1) obtain a b c d e f g where "x = [a, b, c, d, e, f, g]"
    by (auto simp: eval_nat_numeral length_Suc_conv)
  with assms(2) show ?thesis by simp
qed

lemma position_cases:
  fixes p :: int
  assumes "1 \<le> p" and "p \<le> 7"
  shows "p = 1 \<or> p = 2 \<or> p = 3 \<or> p = 4 \<or> p = 5 \<or> p = 6 \<or> p = 7"
  using assms by arith

text \<open>The equations that evaluate the codec on a vector written out bit by bit.\<close>

lemmas codec_eval =
  encoder_def decoder_def parity_check_def bitflip_specific_def flip_item_def
  check_input_def error_syndrome_def mod2_def matmul_def array_index_def
  G_def H_def R_def Let_def

subsection \<open>\<open>list.index\<close>\<close>

text \<open>A successful search returns the first position that holds the value.\<close>

lemma list_index_Inr:
  "list_index xs v = Inr k \<Longrightarrow>
     0 \<le> k \<and> nat k < length xs \<and> xs ! nat k = v \<and> (\<forall>j < nat k. xs ! j \<noteq> v)"
proof (induction xs arbitrary: k)
  case Nil
  then show ?case by simp
next
  case (Cons y ys)
  show ?case
  proof (cases "y = v")
    case True
    with Cons.prems show ?thesis by simp
  next
    case False
    with Cons.prems obtain k' where k': "list_index ys v = Inr k'" and k: "k = k' + 1"
      by (auto split: sum.splits)
    from Cons.IH [OF k'] have ih: "0 \<le> k'" "nat k' < length ys" "ys ! nat k' = v"
      "\<forall>j < nat k'. ys ! j \<noteq> v" by simp_all
    from ih(1) k have nk: "nat k = Suc (nat k')" by simp
    have "\<forall>j < nat k. (y # ys) ! j \<noteq> v"
    proof (intro allI impI)
      fix j assume "j < nat k"
      then show "(y # ys) ! j \<noteq> v"
        using False ih(4) nk by (cases j) simp_all
    qed
    with ih k nk show ?thesis by simp
  qed
qed

lemma list_index_member:
  "v \<in> set xs \<Longrightarrow> \<exists>k. list_index xs v = Inr k"
  by (induction xs) (auto split: sum.splits)

subsection \<open>The columns of \<open>H\<close> and the syndrome\<close>

lemma transpose_H:
  "transpose H = [[1, 0, 0], [0, 1, 0], [1, 1, 0], [0, 0, 1], [1, 0, 1], [0, 1, 1], [1, 1, 1]]"
  by (simp add: H_def)

lemma columns_distinct: "distinct (transpose H)"
  by (simp add: transpose_H)

lemma columns_nonzero_vectors:
  "set (transpose H) = {v. length v = 3 \<and> set v \<subseteq> {0, 1} \<and> v \<noteq> [0, 0, 0]}"
proof (intro set_eqI iffI)
  fix v :: "int list"
  assume "v \<in> set (transpose H)"
  then show "v \<in> {v. length v = 3 \<and> set v \<subseteq> {0, 1} \<and> v \<noteq> [0, 0, 0]}"
    by (auto simp: transpose_H)
next
  fix v :: "int list"
  assume "v \<in> {v. length v = 3 \<and> set v \<subseteq> {0, 1} \<and> v \<noteq> [0, 0, 0]}"
  then have len: "length v = 3" and bits: "set v \<subseteq> {0, 1}" and nz: "v \<noteq> [0, 0, 0]"
    by simp_all
  from len obtain a b c where v: "v = [a, b, c]"
    by (auto simp: eval_nat_numeral length_Suc_conv)
  with bits have "(a = 0 \<or> a = 1) \<and> (b = 0 \<or> b = 1) \<and> (c = 0 \<or> c = 1)" by simp
  with v nz show "v \<in> set (transpose H)"
    by (auto simp: transpose_H)
qed

lemma error_syndrome_vector:
  assumes "length c = 7" and "set c \<subseteq> {0, 1}"
  shows "length (error_syndrome c) = 3 \<and> set (error_syndrome c) \<subseteq> {0, 1}"
proof -
  have "length (error_syndrome c) = 3"
    by (simp add: error_syndrome_def mod2_def matmul_def H_def)
  moreover have "set (error_syndrome c) \<subseteq> {0, 1}"
    by (auto simp: error_syndrome_def mod2_def)
  ultimately show ?thesis by simp
qed

lemma weight_zero_iff:
  assumes "length s = 3" and "set s \<subseteq> {0, 1::int}"
  shows "sum_list s = 0 \<longleftrightarrow> s = [0, 0, 0]"
proof -
  from assms(1) obtain a b c where s: "s = [a, b, c]"
    by (auto simp: eval_nat_numeral length_Suc_conv)
  with assms(2) have "(a = 0 \<or> a = 1) \<and> (b = 0 \<or> b = 1) \<and> (c = 0 \<or> c = 1)" by simp
  with s show ?thesis by auto
qed

lemma weight_range:
  assumes "length s = 3" and "set s \<subseteq> {0, 1::int}"
  shows "0 \<le> sum_list s \<and> sum_list s \<le> 3"
proof -
  from assms(1) obtain a b c where s: "s = [a, b, c]"
    by (auto simp: eval_nat_numeral length_Suc_conv)
  with assms(2) have "(a = 0 \<or> a = 1) \<and> (b = 0 \<or> b = 1) \<and> (c = 0 \<or> c = 1)" by simp
  with s show ?thesis by auto
qed

lemma column_lookup:
  assumes "length c = 7" and "set c \<subseteq> {0, 1}" and "sum_list (error_syndrome c) \<noteq> 0"
  shows "\<exists>k. list_index (transpose H) (error_syndrome c) = Inr k \<and> 0 \<le> k \<and> k < 7 \<and>
             transpose H ! nat k = error_syndrome c"
proof -
  from error_syndrome_vector [OF assms(1,2)]
  have len: "length (error_syndrome c) = 3" and bits: "set (error_syndrome c) \<subseteq> {0, 1}"
    by blast+
  from weight_zero_iff [OF len bits] assms(3) have nz: "error_syndrome c \<noteq> [0, 0, 0]"
    by blast
  from len bits nz
  have "error_syndrome c \<in> {v. length v = 3 \<and> set v \<subseteq> {0, 1} \<and> v \<noteq> [0, 0, 0]}"
    by blast
  then have "error_syndrome c \<in> set (transpose H)"
    by (simp only: columns_nonzero_vectors)
  from list_index_member [OF this]
  obtain k where k: "list_index (transpose H) (error_syndrome c) = Inr k" ..
  from list_index_Inr [OF k]
  have k0: "0 \<le> k" and kl: "nat k < length (transpose H)"
    and col: "transpose H ! nat k = error_syndrome c"
    by blast+
  have "length (transpose H) = 7"
    by (simp add: transpose_H)
  with kl k0 have "k < 7" by simp
  with k k0 col show ?thesis by blast
qed

lemma weight_cases:
  assumes "length c = 7" and "set c \<subseteq> {0, 1}"
  shows "sum_list (error_syndrome c) = 0 \<or> sum_list (error_syndrome c) = 1 \<or>
         sum_list (error_syndrome c) = 2 \<or> sum_list (error_syndrome c) = 3"
proof -
  from error_syndrome_vector [OF assms]
  have "length (error_syndrome c) = 3" and "set (error_syndrome c) \<subseteq> {0, 1}" by blast+
  from weight_range [OF this] show ?thesis by arith
qed

subsection \<open>The three branches of \<open>decoder\<close>\<close>

lemma bit_complement:
  assumes "set c \<subseteq> {0, 1::int}" and "j < length c"
  shows "(if c ! j = 0 then 1 else 0) = 1 - c ! j"
proof -
  from assms have "c ! j \<in> {0, 1}" using nth_mem by blast
  then show ?thesis by auto
qed

lemma decoder_no_error:
  assumes "length c = 7" and "set c \<subseteq> {0, 1}" and "sum_list (error_syndrome c) = 0"
  shows "decoder c = (Inr PyNone, [NoBitflipError, OriginalVector (mod2 (matmul R c))], c)"
  using assms by (simp add: decoder_def check_input_valid)

lemma decoder_weight_one:
  assumes "length c = 7" and "set c \<subseteq> {0, 1}" and "sum_list (error_syndrome c) = 1"
  shows "decoder c = (Inr PyNone, [CannotBeDecoded], c)"
  using assms by (simp add: decoder_def check_input_valid)

lemma decoder_corrects:
  assumes "length c = 7" and "set c \<subseteq> {0, 1}"
    and "sum_list (error_syndrome c) \<noteq> 0" and "sum_list (error_syndrome c) \<noteq> 1"
    and "list_index (transpose H) (error_syndrome c) = Inr k" and "0 \<le> k" and "k < 7"
  shows "decoder c =
           (Inr PyNone,
            [BitWasFlipped (k + 1),
             CorrectedCodeword (c[nat k := 1 - c ! nat k]),
             OriginalVector (mod2 (matmul R (c[nat k := 1 - c ! nat k])))],
            c[nat k := 1 - c ! nat k])"
proof -
  from assms(1,6,7) have idx: "array_index c (k + 1 - 1) = Inr (nat k)"
    by (simp add: array_index_def)
  from assms(1,6,7) have "nat k < length c" by simp
  from bit_complement [OF assms(2) this]
  have flip: "c[nat k := (if c ! nat k = 0 then 1 else 0)] = c[nat k := 1 - c ! nat k]"
    by simp
  show ?thesis
    using assms(3,4,5) idx flip
    by (simp add: decoder_def check_input_valid [OF assms(1,2)] Let_def)
qed

text \<open>Flipping the bit that the column search names cancels the syndrome.\<close>

lemma flip_clears_syndrome:
  assumes "length c = 7" and "set c \<subseteq> {0, 1}"
    and "list_index (transpose H) (error_syndrome c) = Inr k"
  shows "error_syndrome (c[nat k := 1 - c ! nat k]) = [0, 0, 0]"
proof -
  from seven_bits [OF assms(1,2)] obtain a b c' d e f g where
    "c = [a, b, c', d, e, f, g]" "a = 0 \<or> a = 1" "b = 0 \<or> b = 1" "c' = 0 \<or> c' = 1"
    "d = 0 \<or> d = 1" "e = 0 \<or> e = 1" "f = 0 \<or> f = 1" "g = 0 \<or> g = 1"
    by blast
  with assms(3) show ?thesis
    by (elim disjE) (auto simp: error_syndrome_def mod2_def matmul_def H_def)
qed

lemma column_position_unique:
  assumes "1 \<le> p" and "p \<le> 7" and "1 \<le> q" and "q \<le> 7"
    and "transpose H ! nat (p - 1) = s" and "transpose H ! nat (q - 1) = s"
  shows "q = (p::int)"
proof -
  have len: "length (transpose H) = 7" by (simp add: transpose_H)
  from assms(1,2) len have "nat (p - 1) < length (transpose H)" by simp
  moreover from assms(3,4) len have "nat (q - 1) < length (transpose H)" by simp
  moreover from assms(5,6) have "transpose H ! nat (q - 1) = transpose H ! nat (p - 1)" by simp
  ultimately have "nat (q - 1) = nat (p - 1)"
    using columns_distinct by (simp add: nth_eq_iff_index_eq)
  with assms(1,3) show ?thesis by simp
qed

lemma parity_check_outcome:
  assumes "length c = 7" and "set c \<subseteq> {0, 1}"
  shows "fst (parity_check c) = Inr PyNone"
proof (cases "sum_list (error_syndrome c) = 0")
  case True
  with assms show ?thesis by (simp add: parity_check_def check_input_valid)
next
  case False
  from column_lookup [OF assms False] obtain k where
    "list_index (transpose H) (error_syndrome c) = Inr k" by blast
  with assms show ?thesis by (simp add: parity_check_def check_input_valid Let_def)
qed

subsection \<open>Codewords\<close>

lemma encoder_valid:
  assumes "length m = 4" and "set m \<subseteq> {0, 1}"
  shows "encoder m = (Inr (mod2 (matmul G m)), [SevenBitCodeword (mod2 (matmul G m))])"
  by (simp add: encoder_def check_input_valid [OF assms] Let_def)

lemma codeword_zero_syndrome:
  assumes "length m = 4" and "set m \<subseteq> {0, 1}"
  shows "error_syndrome (mod2 (matmul G m)) = [0, 0, 0]"
proof -
  from four_bits [OF assms] obtain a b c d where
    "m = [a, b, c, d]" "a = 0 \<or> a = 1" "b = 0 \<or> b = 1" "c = 0 \<or> c = 1" "d = 0 \<or> d = 1"
    by blast
  then show ?thesis
    by (elim disjE) (simp_all add: error_syndrome_def mod2_def matmul_def G_def H_def)
qed

lemma zero_syndrome_message:
  assumes "length c = 7" and "set c \<subseteq> {0, 1}" and "error_syndrome c = [0, 0, 0]"
  shows "c = mod2 (matmul G [c ! 2, c ! 4, c ! 5, c ! 6])"
proof -
  from seven_bits [OF assms(1,2)] obtain a b c' d e f g where
    "c = [a, b, c', d, e, f, g]" "a = 0 \<or> a = 1" "b = 0 \<or> b = 1" "c' = 0 \<or> c' = 1"
    "d = 0 \<or> d = 1" "e = 0 \<or> e = 1" "f = 0 \<or> f = 1" "g = 0 \<or> g = 1"
    by blast
  with assms(3) show ?thesis
    by (elim disjE) (simp_all add: error_syndrome_def mod2_def matmul_def G_def H_def)
qed

subsection \<open>The loop of \<open>bitflip_rand\<close>\<close>

lemma flip_item_in_range:
  assumes "length x = 7" and "0 \<le> i" and "i \<le> 6"
  shows "flip_item x i = Inr (x[nat i := 1 - x ! nat i])"
  using assms by (simp add: flip_item_def array_index_def)

lemma bitflip_loop_zero:
  assumes "finite F" and "length x = 7" and "set draws \<subseteq> {0..6}"
  shows "bitflip_loop draws F x 0 = None"
  using assms
proof (induction draws arbitrary: F x)
  case Nil
  show ?case by simp
next
  case (Cons i draws)
  from Cons.prems(3) have i: "0 \<le> i" "i \<le> 6" and rest: "set draws \<subseteq> {0..6}" by simp_all
  show ?case
  proof (cases "i \<in> F")
    case True
    with Cons.prems(1) have "card F \<noteq> 0" by auto
    with True Cons.IH [OF Cons.prems(1,2) rest] show ?thesis
      by (simp add: flip_if_new_def)
  next
    case False
    let ?x = "x[nat i := 1 - x ! nat i]"
    from Cons.prems(1) have fin: "finite (insert i F)" by simp
    have len: "length ?x = 7" using Cons.prems(2) by simp
    from Cons.prems(1) have "card (insert i F) \<noteq> 0" by simp
    with False flip_item_in_range [OF Cons.prems(2) i] Cons.IH [OF fin len rest]
    show ?thesis
      by (simp add: flip_if_new_def)
  qed
qed

lemma bitflip_loop_second:
  assumes "length x = 7" and "0 \<le> j" and "j \<le> 6" and "j \<noteq> i" and "set same \<subseteq> {i}"
  shows "bitflip_loop (same @ j # draws) {i} x 2 =
           Some (Inr (x[nat j := 1 - x ! nat j]), x[nat j := 1 - x ! nat j])"
  using assms(5)
proof (induction same)
  case Nil
  from assms(4) show ?case
    by (simp add: flip_if_new_def flip_item_in_range [OF assms(1,2,3)])
next
  case (Cons d same)
  then have "d = i" and "set same \<subseteq> {i}" by simp_all
  with Cons.IH show ?case
    by (simp add: flip_if_new_def)
qed

lemma bitflip_rand_one:
  assumes "length c = 7" and "set c \<subseteq> {0, 1}" and "0 \<le> i" and "i \<le> 6"
  shows "bitflip_rand (i # draws) c 1 =
           Some (Inr (c[nat i := 1 - c ! nat i]), c[nat i := 1 - c ! nat i])"
  by (simp add: bitflip_rand_def check_input_valid [OF assms(1,2)] flip_if_new_def
      flip_item_in_range [OF assms(1,3,4)])

lemma bitflip_rand_two:
  assumes "length c = 7" and "set c \<subseteq> {0, 1}" and "0 \<le> i" and "i \<le> 6"
    and "0 \<le> j" and "j \<le> 6" and "j \<noteq> i" and "set same \<subseteq> {i}"
  shows "bitflip_rand (i # same @ j # draws) c 2 =
           Some (Inr (c[nat i := 1 - c ! nat i, nat j := 1 - c ! nat j]),
                 c[nat i := 1 - c ! nat i, nat j := 1 - c ! nat j])"
proof -
  let ?x = "c[nat i := 1 - c ! nat i]"
  have len: "length ?x = 7" using assms(1) by simp
  from assms(3,5,7) have ne: "nat i \<noteq> nat j" by simp
  from bitflip_loop_second [OF len assms(5,6,7,8)]
  have "bitflip_loop (same @ j # draws) {i} ?x 2 =
          Some (Inr (?x[nat j := 1 - ?x ! nat j]), ?x[nat j := 1 - ?x ! nat j])" .
  with ne show ?thesis
    by (simp add: bitflip_rand_def check_input_valid [OF assms(1,2)] flip_if_new_def
        flip_item_in_range [OF assms(1,3,4)])
qed

lemma complement_differs:
  assumes "n < length (x :: int list)"
  shows "{k. k < length x \<and> x[n := 1 - x ! n] ! k \<noteq> x ! k} = {n}"
proof -
  have "1 - x ! n \<noteq> x ! n" by presburger
  with assms show ?thesis
    by (auto simp: nth_list_update)
qed

section \<open>Round trip and single-bit faults\<close>

text \<open>
  Claim C1. For every 4-bit message \<open>m\<close> with elements 0 or 1, \<open>encoder\<close> returns a codeword
  \<open>c\<close>, and \<open>decoder\<close> applied to \<open>c\<close> takes the no-error branch: it prints the
  no-bitflip line followed by the original-vector line carrying \<open>m\<close> itself, raises
  nothing and leaves the codeword as it was. (The decoder reports through its printed
  lines; the value it returns is \<open>None\<close>.)
\<close>

theorem decoder_encoder_roundtrip:
  assumes "length m = 4" and "set m \<subseteq> {0, 1}"
  shows "\<exists>c. encoder m = (Inr c, [SevenBitCodeword c]) \<and>
             decoder c = (Inr PyNone, [NoBitflipError, OriginalVector m], c)"
proof -
  from four_bits [OF assms] obtain a b c d where
    "m = [a, b, c, d]" "a = 0 \<or> a = 1" "b = 0 \<or> b = 1" "c = 0 \<or> c = 1" "d = 0 \<or> d = 1"
    by blast
  then show ?thesis
    by (elim disjE) (simp_all add: codec_eval)
qed

theorem decoder_encoder_roundtrip_witness:
  "length [1, 0, 1, 0 :: int] = 4 \<and> set [1, 0, 1, 0 :: int] \<subseteq> {0, 1} \<and>
   encoder [1, 0, 1, 0] = (Inr [1, 0, 1, 1, 0, 1, 0], [SevenBitCodeword [1, 0, 1, 1, 0, 1, 0]]) \<and>
   decoder [1, 0, 1, 1, 0, 1, 0] =
     (Inr PyNone, [NoBitflipError, OriginalVector [1, 0, 1, 0]], [1, 0, 1, 1, 0, 1, 0])"
  using decoder_encoder_roundtrip [of "[1, 0, 1, 0]"]
  by (simp add: codec_eval)

text \<open>
  Claim C2. For every 4-bit message \<open>m\<close> and every position \<open>p\<close> in 1..7, let \<open>c\<close> be the
  encoder's codeword and \<open>c'\<close> the array \<open>bitflip_specific\<close> returns for index \<open>p - 1\<close>.
  If the syndrome of \<open>c'\<close> has weight 1, \<open>decoder\<close> prints only the cannot-be-decoded
  line (no message is recovered) and leaves \<open>c'\<close> unchanged. Otherwise it prints that
  the bit at position \<open>p\<close> was flipped, the corrected codeword \<open>c\<close> and the original
  vector \<open>m\<close>, and the array holds \<open>c\<close> again.
\<close>

theorem decoder_single_bitflip:
  assumes "length m = 4" and "set m \<subseteq> {0, 1}" and "1 \<le> p" and "p \<le> 7"
  shows "\<exists>c c'. fst (encoder m) = Inr c \<and> bitflip_specific c (p - 1) = (Inr c', c') \<and>
           (if sum_list (error_syndrome c') = 1
            then decoder c' = (Inr PyNone, [CannotBeDecoded], c')
            else decoder c' =
                   (Inr PyNone, [BitWasFlipped p, CorrectedCodeword c, OriginalVector m], c))"
proof -
  from four_bits [OF assms(1,2)] obtain a b c d where
    "m = [a, b, c, d]" "a = 0 \<or> a = 1" "b = 0 \<or> b = 1" "c = 0 \<or> c = 1" "d = 0 \<or> d = 1"
    by blast
  moreover note position_cases [OF assms(3,4)]
  ultimately show ?thesis
    by (elim disjE) (simp_all add: codec_eval)
qed

theorem decoder_single_bitflip_witness:
  "length [1, 0, 1, 0 :: int] = 4 \<and> set [1, 0, 1, 0 :: int] \<subseteq> {0, 1} \<and> (1::int) \<le> 3 \<and> (3::int) \<le> 7 \<and>
   fst (encoder [1, 0, 1, 0]) = Inr [1, 0, 1, 1, 0, 1, 0] \<and>
   bitflip_specific [1, 0, 1, 1, 0, 1, 0] (3 - 1) = (Inr [1, 0, 0, 1, 0, 1, 0], [1, 0, 0, 1, 0, 1, 0]) \<and>
   sum_list (error_syndrome [1, 0, 0, 1, 0, 1, 0]) = 2 \<and>
   decoder [1, 0, 0, 1, 0, 1, 0] =
     (Inr PyNone,
      [BitWasFlipped 3, CorrectedCodeword [1, 0, 1, 1, 0, 1, 0], OriginalVector [1, 0, 1, 0]],
      [1, 0, 1, 1, 0, 1, 0])"
  using decoder_single_bitflip [of "[1, 0, 1, 0]" 3]
  by (simp add: codec_eval)

text \<open>
  The positions whose corruption is refused: the syndrome of a codeword with one bit
  flipped has weight 1 exactly for the positions 1, 2 and 4, whose columns of \<open>H\<close> are
  the unit vectors.
\<close>

theorem weight_one_positions:
  assumes "length m = 4" and "set m \<subseteq> {0, 1}" and "1 \<le> p" and "p \<le> 7"
  shows "\<exists>c c'. fst (encoder m) = Inr c \<and> bitflip_specific c (p - 1) = (Inr c', c') \<and>
           (sum_list (error_syndrome c') = 1 \<longleftrightarrow> p \<in> {1, 2, 4})"
proof -
  from four_bits [OF assms(1,2)] obtain a b c d where
    "m = [a, b, c, d]" "a = 0 \<or> a = 1" "b = 0 \<or> b = 1" "c = 0 \<or> c = 1" "d = 0 \<or> d = 1"
    by blast
  moreover note position_cases [OF assms(3,4)]
  ultimately show ?thesis
    by (elim disjE) (simp_all add: codec_eval)
qed

theorem weight_one_positions_witness:
  "length [1, 0, 1, 0 :: int] = 4 \<and> set [1, 0, 1, 0 :: int] \<subseteq> {0, 1} \<and> (1::int) \<le> 2 \<and> (2::int) \<le> 7 \<and>
   fst (encoder [1, 0, 1, 0]) = Inr [1, 0, 1, 1, 0, 1, 0] \<and>
   bitflip_specific [1, 0, 1, 1, 0, 1, 0] (2 - 1) = (Inr [1, 1, 1, 1, 0, 1, 0], [1, 1, 1, 1, 0, 1, 0]) \<and>
   sum_list (error_syndrome [1, 1, 1, 1, 0, 1, 0]) = 1 \<and>
   decoder [1, 1, 1, 1, 0, 1, 0] = (Inr PyNone, [CannotBeDecoded], [1, 1, 1, 1, 0, 1, 0])"
  using weight_one_positions [of "[1, 0, 1, 0]" 2]
  by (simp add: codec_eval)

text \<open>
  Two faults can look like one. Flipping the bits at indices 4 and 5 of the codeword of
  \<open>[1, 0, 1, 0]\<close> gives the syndrome \<open>[1, 1, 0]\<close>, the third column of \<open>H\<close>: \<open>decoder\<close>
  flips position 3 and prints \<open>[0, 1, 0, 0]\<close> as the original vector.
\<close>

theorem double_fault_miscorrected:
  "fst (encoder [1, 0, 1, 0]) = Inr [1, 0, 1, 1, 0, 1, 0] \<and>
   bitflip_specific [1, 0, 1, 1, 0, 1, 0] 4 = (Inr [1, 0, 1, 1, 1, 1, 0], [1, 0, 1, 1, 1, 1, 0]) \<and>
   bitflip_specific [1, 0, 1, 1, 1, 1, 0] 5 = (Inr [1, 0, 1, 1, 1, 0, 0], [1, 0, 1, 1, 1, 0, 0]) \<and>
   error_syndrome [1, 0, 1, 1, 1, 0, 0] = [1, 1, 0] \<and>
   decoder [1, 0, 1, 1, 1, 0, 0] =
     (Inr PyNone,
      [BitWasFlipped 3, CorrectedCodeword [1, 0, 0, 1, 1, 0, 0], OriginalVector [0, 1, 0, 0]],
      [1, 0, 0, 1, 1, 0, 0])"
  by (simp add: codec_eval)

text \<open>
  \<open>parity_check\<close> applied to the encoder's codeword prints the zero error vector and the
  no-error line.
\<close>

theorem parity_check_of_codeword:
  assumes "length m = 4" and "set m \<subseteq> {0, 1}"
  shows "\<exists>c. fst (encoder m) = Inr c \<and>
             parity_check c = (Inr PyNone, [ErrorVector [0, 0, 0], NoTransmissionError])"
proof -
  let ?c = "mod2 (matmul G m)"
  have len: "length ?c = 7" by (simp add: mod2_def matmul_def G_def)
  have bits: "set ?c \<subseteq> {0, 1}" by (auto simp: mod2_def)
  from codeword_zero_syndrome [OF assms]
  have "parity_check ?c = (Inr PyNone, [ErrorVector [0, 0, 0], NoTransmissionError])"
    by (simp add: parity_check_def check_input_valid [OF len bits])
  with encoder_valid [OF assms] show ?thesis by simp
qed

theorem parity_check_of_codeword_witness:
  "length [1, 0, 1, 0 :: int] = 4 \<and> set [1, 0, 1, 0 :: int] \<subseteq> {0, 1} \<and>
   fst (encoder [1, 0, 1, 0]) = Inr [1, 0, 1, 1, 0, 1, 0] \<and>
   parity_check [1, 0, 1, 1, 0, 1, 0] = (Inr PyNone, [ErrorVector [0, 0, 0], NoTransmissionError])"
  using parity_check_of_codeword [of "[1, 0, 1, 0]"]
  by (simp add: codec_eval)

section \<open>The decoder's branches\<close>

text \<open>
  Claim C3. Let \<open>c\<close> be a validated 7-bit vector and \<open>s = H c mod 2\<close> its syndrome.
  If the weight of \<open>s\<close> is 0, \<open>decoder\<close> prints the no-bitflip line (and the
  projection of \<open>c\<close>) and changes no bit of \<open>c\<close>. If the weight is 1, it prints the
  cannot-be-decoded line and changes no bit of \<open>c\<close>. If the weight is 2 or 3, there is
  a position \<open>p\<close> in 1..7, the only one whose column of \<open>H\<close> equals \<open>s\<close>, such that
  \<open>decoder\<close> prints that the bit at position \<open>p\<close> was flipped and the array afterwards
  is \<open>c\<close> with exactly the element at index \<open>p - 1\<close> complemented.
\<close>

theorem decoder_by_syndrome_weight:
  assumes "length c = 7" and "set c \<subseteq> {0, 1}"
  shows "(sum_list (error_syndrome c) = 0 \<longrightarrow>
            decoder c = (Inr PyNone, [NoBitflipError, OriginalVector (mod2 (matmul R c))], c))
       \<and> (sum_list (error_syndrome c) = 1 \<longrightarrow>
            decoder c = (Inr PyNone, [CannotBeDecoded], c))
       \<and> (sum_list (error_syndrome c) \<in> {2, 3} \<longrightarrow>
            (\<exists>p. 1 \<le> p \<and> p \<le> 7 \<and> transpose H ! nat (p - 1) = error_syndrome c
               \<and> (\<forall>q. 1 \<le> q \<and> q \<le> 7 \<and> transpose H ! nat (q - 1) = error_syndrome c
                      \<longrightarrow> q = p)
               \<and> decoder c =
                   (Inr PyNone,
                    [BitWasFlipped p,
                     CorrectedCodeword (c[nat (p - 1) := 1 - c ! nat (p - 1)]),
                     OriginalVector (mod2 (matmul R (c[nat (p - 1) := 1 - c ! nat (p - 1)])))],
                    c[nat (p - 1) := 1 - c ! nat (p - 1)])))"
proof (intro conjI impI)
  assume "sum_list (error_syndrome c) = 0"
  then show "decoder c = (Inr PyNone, [NoBitflipError, OriginalVector (mod2 (matmul R c))], c)"
    by (rule decoder_no_error [OF assms])
next
  assume "sum_list (error_syndrome c) = 1"
  then show "decoder c = (Inr PyNone, [CannotBeDecoded], c)"
    by (rule decoder_weight_one [OF assms])
next
  assume w: "sum_list (error_syndrome c) \<in> {2, 3}"
  then have w0: "sum_list (error_syndrome c) \<noteq> 0" and w1: "sum_list (error_syndrome c) \<noteq> 1"
    by auto
  from column_lookup [OF assms w0] obtain k where
    k: "list_index (transpose H) (error_syndrome c) = Inr k" and k0: "0 \<le> k" and k7: "k < 7"
    and col: "transpose H ! nat k = error_syndrome c"
    by blast
  let ?p = "k + 1"
  have p: "1 \<le> ?p" "?p \<le> 7" using k0 k7 by simp_all
  have colp: "transpose H ! nat (?p - 1) = error_syndrome c" using col by simp
  have uniq: "\<forall>q. 1 \<le> q \<and> q \<le> 7 \<and> transpose H ! nat (q - 1) = error_syndrome c \<longrightarrow> q = ?p"
    using column_position_unique [OF p] colp by blast
  have dec: "decoder c =
      (Inr PyNone,
       [BitWasFlipped ?p,
        CorrectedCodeword (c[nat (?p - 1) := 1 - c ! nat (?p - 1)]),
        OriginalVector (mod2 (matmul R (c[nat (?p - 1) := 1 - c ! nat (?p - 1)])))],
       c[nat (?p - 1) := 1 - c ! nat (?p - 1)])"
    using decoder_corrects [OF assms w0 w1 k k0 k7] by simp
  from p colp uniq dec
  show "\<exists>p. 1 \<le> p \<and> p \<le> 7 \<and> transpose H ! nat (p - 1) = error_syndrome c
          \<and> (\<forall>q. 1 \<le> q \<and> q \<le> 7 \<and> transpose H ! nat (q - 1) = error_syndrome c \<longrightarrow> q = p)
          \<and> decoder c =
              (Inr PyNone,
               [BitWasFlipped p,
                CorrectedCodeword (c[nat (p - 1) := 1 - c ! nat (p - 1)]),
                OriginalVector (mod2 (matmul R (c[nat (p - 1) := 1 - c ! nat (p - 1)])))],
               c[nat (p - 1) := 1 - c ! nat (p - 1)])"
    by (intro exI [of _ ?p] conjI)
qed

theorem decoder_by_syndrome_weight_witness:
  "length [1, 0, 0, 1, 0, 1, 0 :: int] = 7 \<and> set [1, 0, 0, 1, 0, 1, 0 :: int] \<subseteq> {0, 1} \<and>
   sum_list (error_syndrome [1, 0, 0, 1, 0, 1, 0]) = 2 \<and>
   transpose H ! nat (3 - 1) = error_syndrome [1, 0, 0, 1, 0, 1, 0] \<and>
   decoder [1, 0, 0, 1, 0, 1, 0] =
     (Inr PyNone,
      [BitWasFlipped 3, CorrectedCodeword [1, 0, 1, 1, 0, 1, 0], OriginalVector [1, 0, 1, 0]],
      [1, 0, 1, 1, 0, 1, 0]) \<and>
   sum_list (error_syndrome [1, 0, 1, 1, 0, 1, 0]) = 0 \<and>
   decoder [1, 0, 1, 1, 0, 1, 0] =
     (Inr PyNone, [NoBitflipError, OriginalVector [1, 0, 1, 0]], [1, 0, 1, 1, 0, 1, 0]) \<and>
   sum_list (error_syndrome [0, 0, 1, 1, 0, 1, 0]) = 1 \<and>
   decoder [0, 0, 1, 1, 0, 1, 0] = (Inr PyNone, [CannotBeDecoded], [0, 0, 1, 1, 0, 1, 0])"
  using decoder_by_syndrome_weight [of "[1, 0, 0, 1, 0, 1, 0]"]
    decoder_by_syndrome_weight [of "[1, 0, 1, 1, 0, 1, 0]"]
    decoder_by_syndrome_weight [of "[0, 0, 1, 1, 0, 1, 0]"]
  by (simp add: codec_eval)

text \<open>
  Claim C4, as the code has it. \<open>decoder\<close> hands back no pair of a status and a
  message: every path ends in a bare \<open>return\<close>, so the value returned is \<open>None\<close>,
  also for the all-zero codeword, whose syndrome is zero.
\<close>

theorem decoder_returns_no_pair:
  "fst (decoder [0, 0, 0, 0, 0, 0, 0]) = Inr PyNone \<and>
   \<not> (\<exists>status message. fst (decoder [0, 0, 0, 0, 0, 0, 0]) = Inr (PyTuple [status, message]))"
  by (simp add: codec_eval)

text \<open>
  Claim C4, amended. For every validated 7-bit vector \<open>c\<close>, \<open>decoder\<close> raises no
  exception and returns \<open>None\<close>; its three-way outcome is the list of lines it prints.
  The original-vector line is printed if and only if the syndrome weight is not 1.
  With weight 0 the lines are the no-bitflip line and the projection \<open>R c mod 2\<close> of the
  unchanged \<open>c\<close>; with weight 1 the only line is the cannot-be-decoded line and \<open>c\<close>
  is unchanged; with weight 2 or 3 the lines are the flipped position \<open>p\<close> in 1..7, the
  corrected codeword \<open>c'\<close> and the projection \<open>R c' mod 2\<close>.
\<close>

theorem decoder_report_lines:
  assumes "length c = 7" and "set c \<subseteq> {0, 1}"
  shows "fst (decoder c) = Inr PyNone
       \<and> ((\<exists>v. OriginalVector v \<in> set (fst (snd (decoder c))))
            \<longleftrightarrow> sum_list (error_syndrome c) \<noteq> 1)
       \<and> (sum_list (error_syndrome c) = 0 \<and>
            snd (decoder c) = ([NoBitflipError, OriginalVector (mod2 (matmul R c))], c)
          \<or> sum_list (error_syndrome c) = 1 \<and> snd (decoder c) = ([CannotBeDecoded], c)
          \<or> sum_list (error_syndrome c) \<in> {2, 3} \<and>
            (\<exists>p c'. 1 \<le> p \<and> p \<le> 7 \<and>
               snd (decoder c) =
                 ([BitWasFlipped p, CorrectedCodeword c', OriginalVector (mod2 (matmul R c'))],
                  c')))"
proof -
  consider (zero) "sum_list (error_syndrome c) = 0" | (one) "sum_list (error_syndrome c) = 1"
    | (more) "sum_list (error_syndrome c) \<in> {2, 3}"
    using weight_cases [OF assms] by auto
  then show ?thesis
  proof cases
    case zero
    with decoder_no_error [OF assms zero] show ?thesis by simp
  next
    case one
    with decoder_weight_one [OF assms one] show ?thesis by simp
  next
    case more
    then have w0: "sum_list (error_syndrome c) \<noteq> 0" and w1: "sum_list (error_syndrome c) \<noteq> 1"
      by auto
    from column_lookup [OF assms w0] obtain k where
      k: "list_index (transpose H) (error_syndrome c) = Inr k" and k0: "0 \<le> k" and k7: "k < 7"
      by blast
    note dec = decoder_corrects [OF assms w0 w1 k k0 k7]
    from k0 k7 have "1 \<le> k + 1 \<and> k + 1 \<le> 7" by simp
    with dec more w0 w1 show ?thesis
      by (simp del: insert_iff) blast
  qed
qed

theorem decoder_report_lines_witness:
  "length [0, 0, 1, 1, 0, 1, 0 :: int] = 7 \<and> set [0, 0, 1, 1, 0, 1, 0 :: int] \<subseteq> {0, 1} \<and>
   sum_list (error_syndrome [0, 0, 1, 1, 0, 1, 0]) = 1 \<and>
   decoder [0, 0, 1, 1, 0, 1, 0] = (Inr PyNone, [CannotBeDecoded], [0, 0, 1, 1, 0, 1, 0]) \<and>
   sum_list (error_syndrome [1, 0, 0, 1, 0, 1, 0]) = 2 \<and>
   decoder [1, 0, 0, 1, 0, 1, 0] =
     (Inr PyNone,
      [BitWasFlipped 3, CorrectedCodeword [1, 0, 1, 1, 0, 1, 0], OriginalVector [1, 0, 1, 0]],
      [1, 0, 1, 1, 0, 1, 0])"
  using decoder_report_lines [of "[0, 0, 1, 1, 0, 1, 0]"]
    decoder_report_lines [of "[1, 0, 0, 1, 0, 1, 0]"]
  by (simp add: codec_eval)

text \<open>
  Claim C9. Whenever \<open>decoder\<close> takes the correcting branch (syndrome weight 2 or 3),
  the column search locates the position \<open>p\<close> in 1..7 whose column of \<open>H\<close> equals the
  syndrome of \<open>c\<close>; the corrected codeword is \<open>c\<close> with the bit at position \<open>p\<close>
  flipped; \<open>decoder\<close> prints it, projects it through \<open>R\<close> and leaves it in the
  array; and its syndrome \<open>H c' mod 2\<close> is the zero vector.
\<close>

theorem corrected_codeword_zero_syndrome:
  assumes "length c = 7" and "set c \<subseteq> {0, 1}" and "sum_list (error_syndrome c) \<in> {2, 3}"
  shows "\<exists>p. 1 \<le> p \<and> p \<le> 7
             \<and> list_index (transpose H) (error_syndrome c) = Inr (p - 1)
             \<and> transpose H ! nat (p - 1) = error_syndrome c
             \<and> decoder c =
                 (Inr PyNone,
                  [BitWasFlipped p,
                   CorrectedCodeword (c[nat (p - 1) := 1 - c ! nat (p - 1)]),
                   OriginalVector (mod2 (matmul R (c[nat (p - 1) := 1 - c ! nat (p - 1)])))],
                  c[nat (p - 1) := 1 - c ! nat (p - 1)])
             \<and> error_syndrome (c[nat (p - 1) := 1 - c ! nat (p - 1)]) = [0, 0, 0]"
proof -
  from assms(3) have w0: "sum_list (error_syndrome c) \<noteq> 0" and w1: "sum_list (error_syndrome c) \<noteq> 1"
    by auto
  from column_lookup [OF assms(1,2) w0] obtain k where
    k: "list_index (transpose H) (error_syndrome c) = Inr k" and k0: "0 \<le> k" and k7: "k < 7"
    and col: "transpose H ! nat k = error_syndrome c"
    by blast
  let ?p = "k + 1"
  have p: "1 \<le> ?p" "?p \<le> 7" using k0 k7 by simp_all
  have idx: "list_index (transpose H) (error_syndrome c) = Inr (?p - 1)" using k by simp
  have colp: "transpose H ! nat (?p - 1) = error_syndrome c" using col by simp
  have dec: "decoder c =
      (Inr PyNone,
       [BitWasFlipped ?p,
        CorrectedCodeword (c[nat (?p - 1) := 1 - c ! nat (?p - 1)]),
        OriginalVector (mod2 (matmul R (c[nat (?p - 1) := 1 - c ! nat (?p - 1)])))],
       c[nat (?p - 1) := 1 - c ! nat (?p - 1)])"
    using decoder_corrects [OF assms(1,2) w0 w1 k k0 k7] by simp
  have zero: "error_syndrome (c[nat (?p - 1) := 1 - c ! nat (?p - 1)]) = [0, 0, 0]"
    using flip_clears_syndrome [OF assms(1,2) k] by simp
  from p idx colp dec zero show ?thesis
    by (intro exI [of _ ?p] conjI)
qed

theorem corrected_codeword_zero_syndrome_witness:
  "length [1, 0, 0, 1, 0, 1, 0 :: int] = 7 \<and> set [1, 0, 0, 1, 0, 1, 0 :: int] \<subseteq> {0, 1} \<and>
   sum_list (error_syndrome [1, 0, 0, 1, 0, 1, 0]) \<in> {2, 3} \<and>
   list_index (transpose H) (error_syndrome [1, 0, 0, 1, 0, 1, 0]) = Inr (3 - 1) \<and>
   transpose H ! nat (3 - 1) = error_syndrome [1, 0, 0, 1, 0, 1, 0] \<and>
   [1, 0, 0, 1, 0, 1, 0 :: int][nat (3 - 1) := 1 - [1, 0, 0, 1, 0, 1, 0] ! nat (3 - 1)] =
     [1, 0, 1, 1, 0, 1, 0] \<and>
   decoder [1, 0, 0, 1, 0, 1, 0] =
     (Inr PyNone,
      [BitWasFlipped 3, CorrectedCodeword [1, 0, 1, 1, 0, 1, 0],
       OriginalVector [1, 0, 1, 0]],
      [1, 0, 1, 1, 0, 1, 0]) \<and>
   error_syndrome [1, 0, 1, 1, 0, 1, 0] = [0, 0, 0]"
  using corrected_codeword_zero_syndrome [of "[1, 0, 0, 1, 0, 1, 0]"]
  by (simp add: codec_eval)

section \<open>The column search\<close>

text \<open>
  Claim C5. For every validated 7-bit vector \<open>c\<close> whose syndrome has weight at least 2,
  \<open>list.index\<close> finds the syndrome among the seven columns of \<open>H\<close>, at an index in
  0..6, so neither \<open>parity_check\<close> nor \<open>decoder\<close> raises; the seven columns of \<open>H\<close>
  are pairwise distinct and are exactly the nonzero 0/1 vectors of length 3.
\<close>

theorem column_search_succeeds:
  assumes "length c = 7" and "set c \<subseteq> {0, 1}" and "2 \<le> sum_list (error_syndrome c)"
  shows "(\<exists>k. list_index (transpose H) (error_syndrome c) = Inr k \<and> 0 \<le> k \<and> k < 7)
       \<and> fst (parity_check c) = Inr PyNone
       \<and> fst (decoder c) = Inr PyNone
       \<and> distinct (transpose H)
       \<and> set (transpose H) = {v. length v = 3 \<and> set v \<subseteq> {0, 1} \<and> v \<noteq> [0, 0, 0]}"
proof -
  from assms(3) have w0: "sum_list (error_syndrome c) \<noteq> 0" and w1: "sum_list (error_syndrome c) \<noteq> 1"
    by simp_all
  from column_lookup [OF assms(1,2) w0] obtain k where
    k: "list_index (transpose H) (error_syndrome c) = Inr k" and k0: "0 \<le> k" and k7: "k < 7"
    by blast
  then have "\<exists>k. list_index (transpose H) (error_syndrome c) = Inr k \<and> 0 \<le> k \<and> k < 7"
    by blast
  moreover have "fst (parity_check c) = Inr PyNone"
    by (rule parity_check_outcome [OF assms(1,2)])
  moreover have "fst (decoder c) = Inr PyNone"
    by (simp add: decoder_corrects [OF assms(1,2) w0 w1 k k0 k7])
  ultimately show ?thesis
    using columns_distinct columns_nonzero_vectors by blast
qed

theorem column_search_succeeds_witness:
  "length [1, 0, 0, 1, 0, 1, 0 :: int] = 7 \<and> set [1, 0, 0, 1, 0, 1, 0 :: int] \<subseteq> {0, 1} \<and>
   2 \<le> sum_list (error_syndrome [1, 0, 0, 1, 0, 1, 0]) \<and>
   list_index (transpose H) (error_syndrome [1, 0, 0, 1, 0, 1, 0]) = Inr 2 \<and>
   parity_check [1, 0, 0, 1, 0, 1, 0] = (Inr PyNone, [ErrorVector [1, 1, 0], BitflipOccurredAt 3]) \<and>
   fst (decoder [1, 0, 0, 1, 0, 1, 0]) = Inr PyNone"
  using column_search_succeeds [of "[1, 0, 0, 1, 0, 1, 0]"]
  by (simp add: codec_eval)

section \<open>The kernel of \<open>H\<close>\<close>

text \<open>
  Claim C6. For every 7-bit vector \<open>c\<close> with elements 0 or 1, the syndrome
  \<open>H c mod 2\<close> is the zero vector if and only if \<open>c = G m mod 2\<close> for some 4-bit
  message \<open>m\<close> with elements 0 or 1.
\<close>

theorem zero_syndrome_iff_codeword:
  assumes "length c = 7" and "set c \<subseteq> {0, 1}"
  shows "error_syndrome c = [0, 0, 0] \<longleftrightarrow>
           (\<exists>m. length m = 4 \<and> set m \<subseteq> {0, 1} \<and> c = mod2 (matmul G m))"
proof
  assume z: "error_syndrome c = [0, 0, 0]"
  let ?m = "[c ! 2, c ! 4, c ! 5, c ! 6]"
  have bit: "c ! k \<in> {0, 1}" if "k < 7" for k
  proof -
    from that assms(1) have "c ! k \<in> set c" by simp
    with assms(2) show ?thesis by blast
  qed
  have "set ?m \<subseteq> {0, 1}"
    using bit [of 2] bit [of 4] bit [of 5] bit [of 6] by simp
  moreover have "length ?m = 4" by simp
  moreover note zero_syndrome_message [OF assms z]
  ultimately show "\<exists>m. length m = 4 \<and> set m \<subseteq> {0, 1} \<and> c = mod2 (matmul G m)"
    by blast
next
  assume "\<exists>m. length m = 4 \<and> set m \<subseteq> {0, 1} \<and> c = mod2 (matmul G m)"
  then show "error_syndrome c = [0, 0, 0]"
    using codeword_zero_syndrome by blast
qed

theorem zero_syndrome_iff_codeword_witness:
  "length [1, 0, 1, 1, 0, 1, 0 :: int] = 7 \<and> set [1, 0, 1, 1, 0, 1, 0 :: int] \<subseteq> {0, 1} \<and>
   error_syndrome [1, 0, 1, 1, 0, 1, 0] = [0, 0, 0] \<and>
   (\<exists>m. length m = 4 \<and> set m \<subseteq> {0, 1} \<and> [1, 0, 1, 1, 0, 1, 0] = mod2 (matmul G m)) \<and>
   error_syndrome [1, 0, 0, 1, 0, 1, 0] = [1, 1, 0] \<and>
   \<not> (\<exists>m. length m = 4 \<and> set m \<subseteq> {0, 1} \<and> [1, 0, 0, 1, 0, 1, 0] = mod2 (matmul G m))"
  using zero_syndrome_iff_codeword [of "[1, 0, 1, 1, 0, 1, 0]"]
    zero_syndrome_iff_codeword [of "[1, 0, 0, 1, 0, 1, 0]"]
  by (simp add: error_syndrome_def mod2_def matmul_def H_def)

section \<open>Fault injection\<close>

text \<open>
  Claim C7. For every validated 7-bit vector \<open>c\<close>: \<open>bitflip_rand\<close> with a flip count
  above 2 raises \<open>ValueError\<close>, whatever the random draws, and \<open>bitflip_specific\<close>
  with an index above 6 raises \<open>ValueError\<close>; in both cases the array still holds
  \<open>c\<close>, no bit flipped.
\<close>

theorem fault_injection_policy_errors:
  assumes "length c = 7" and "set c \<subseteq> {0, 1}"
  shows "(2 < k \<longrightarrow> bitflip_rand draws c k = Some (Inl ValueError, c))
       \<and> (6 < i \<longrightarrow> bitflip_specific c i = (Inl ValueError, c))"
  by (simp add: bitflip_rand_def bitflip_specific_def check_input_valid [OF assms])

theorem fault_injection_policy_errors_witness:
  "length [1, 0, 1, 1, 0, 1, 0 :: int] = 7 \<and> set [1, 0, 1, 1, 0, 1, 0 :: int] \<subseteq> {0, 1} \<and>
   (2 :: int) < 3 \<and> (6 :: int) < 7 \<and>
   bitflip_rand [4, 0, 6] [1, 0, 1, 1, 0, 1, 0] 3 = Some (Inl ValueError, [1, 0, 1, 1, 0, 1, 0]) \<and>
   bitflip_specific [1, 0, 1, 1, 0, 1, 0] 7 = (Inl ValueError, [1, 0, 1, 1, 0, 1, 0])"
  using fault_injection_policy_errors [of "[1, 0, 1, 1, 0, 1, 0]" 3 "[4, 0, 6]" 7]
  by simp

text \<open>
  Claim C10. For every validated 7-bit vector \<open>c\<close> and every index \<open>i\<close> with
  \<open>-7 \<le> i \<le> -1\<close>, \<open>bitflip_specific\<close> raises nothing and returns the array with
  exactly the element at position \<open>7 + i\<close> complemented.
\<close>

theorem bitflip_specific_negative_index:
  assumes "length c = 7" and "set c \<subseteq> {0, 1}" and "- 7 \<le> i" and "i \<le> - 1"
  shows "bitflip_specific c i =
           (Inr (c[nat (7 + i) := 1 - c ! nat (7 + i)]), c[nat (7 + i) := 1 - c ! nat (7 + i)])"
  using assms(1,3,4)
  by (simp add: bitflip_specific_def flip_item_def array_index_def check_input_valid [OF assms(1,2)])

theorem bitflip_specific_negative_index_witness:
  "length [1, 0, 1, 1, 0, 1, 0 :: int] = 7 \<and> set [1, 0, 1, 1, 0, 1, 0 :: int] \<subseteq> {0, 1} \<and>
   - 7 \<le> (- 2 :: int) \<and> (- 2 :: int) \<le> - 1 \<and>
   bitflip_specific [1, 0, 1, 1, 0, 1, 0] (- 2) =
     (Inr [1, 0, 1, 1, 0, 0, 0], [1, 0, 1, 1, 0, 0, 0])"
  using bitflip_specific_negative_index [of "[1, 0, 1, 1, 0, 1, 0]" "- 2"]
  by simp

text \<open>
  Claim C8, at flip count 0. The loop body flips a fresh position before it compares
  the number of flipped positions with the requested count, so with count 0 the
  comparison never holds: for every validated 7-bit vector and every sequence of
  draws from 0..6, however long, \<open>bitflip_rand\<close> has not returned.
\<close>

theorem bitflip_rand_zero_never_returns:
  assumes "length c = 7" and "set c \<subseteq> {0, 1}" and "set draws \<subseteq> {0..6}"
  shows "bitflip_rand draws c 0 = None"
  using bitflip_loop_zero [OF _ assms(1,3)]
  by (simp add: bitflip_rand_def check_input_valid [OF assms(1,2)])

theorem bitflip_rand_zero_never_returns_witness:
  "length [1, 0, 1, 1, 0, 1, 0 :: int] = 7 \<and> set [1, 0, 1, 1, 0, 1, 0 :: int] \<subseteq> {0, 1} \<and>
   set [3, 3, 5, 0, 1, 2, 4, 6, 6 :: int] \<subseteq> {0..6} \<and>
   bitflip_rand [3, 3, 5, 0, 1, 2, 4, 6, 6] [1, 0, 1, 1, 0, 1, 0] 0 = None"
  using bitflip_rand_zero_never_returns [of "[1, 0, 1, 1, 0, 1, 0]" "[3, 3, 5, 0, 1, 2, 4, 6, 6]"]
  by simp

text \<open>
  With flip count 1 the first draw ends the loop: for every validated 7-bit vector and
  first draw \<open>i\<close> in 0..6, \<open>bitflip_rand\<close> returns the array with the element at \<open>i\<close>
  complemented, which differs from the input in exactly one position.
\<close>

theorem bitflip_rand_one_position:
  assumes "length c = 7" and "set c \<subseteq> {0, 1}" and "0 \<le> i" and "i \<le> 6"
  shows "\<exists>c'. bitflip_rand (i # draws) c 1 = Some (Inr c', c') \<and>
              c' = c[nat i := 1 - c ! nat i] \<and>
              card {k. k < 7 \<and> c' ! k \<noteq> c ! k} = 1"
proof -
  from assms(1,3,4) have "nat i < length c" by simp
  from complement_differs [OF this] assms(1)
  have "card {k. k < 7 \<and> c[nat i := 1 - c ! nat i] ! k \<noteq> c ! k} = 1" by simp
  with bitflip_rand_one [OF assms] show ?thesis by simp
qed

theorem bitflip_rand_one_position_witness:
  "length [1, 0, 1, 1, 0, 1, 0 :: int] = 7 \<and> set [1, 0, 1, 1, 0, 1, 0 :: int] \<subseteq> {0, 1} \<and>
   (0 :: int) \<le> 4 \<and> (4 :: int) \<le> 6 \<and>
   bitflip_rand [4, 2] [1, 0, 1, 1, 0, 1, 0] 1 = Some (Inr [1, 0, 1, 1, 1, 1, 0], [1, 0, 1, 1, 1, 1, 0])"
  using bitflip_rand_one_position [of "[1, 0, 1, 1, 0, 1, 0]" 4 "[2]"]
  by simp

text \<open>
  With flip count 2 the loop ends at the first draw \<open>j\<close> that differs from the first
  draw \<open>i\<close>, repeated draws of \<open>i\<close> in between changing nothing: the array returned has
  the elements at \<open>i\<close> and \<open>j\<close> complemented and differs from the input in exactly two
  positions.
\<close>

theorem bitflip_rand_two_positions:
  assumes "length c = 7" and "set c \<subseteq> {0, 1}" and "0 \<le> i" and "i \<le> 6"
    and "0 \<le> j" and "j \<le> 6" and "j \<noteq> i" and "set same \<subseteq> {i}"
  shows "\<exists>c'. bitflip_rand (i # same @ j # draws) c 2 = Some (Inr c', c') \<and>
              c' = c[nat i := 1 - c ! nat i, nat j := 1 - c ! nat j] \<and>
              card {k. k < 7 \<and> c' ! k \<noteq> c ! k} = 2"
proof -
  let ?c' = "c[nat i := 1 - c ! nat i, nat j := 1 - c ! nat j]"
  from assms(3,5,7) have ne: "nat i \<noteq> nat j" by simp
  from assms(1,3,4) have li: "nat i < length c" by simp
  from assms(1,5,6) have lj: "nat j < length c" by simp
  have ci: "1 - c ! nat i \<noteq> c ! nat i" and cj: "1 - c ! nat j \<noteq> c ! nat j" by presburger+
  have "{k. k < 7 \<and> ?c' ! k \<noteq> c ! k} = {nat i, nat j}"
    using ne li lj ci cj assms(1) by (auto simp: nth_list_update)
  with ne have "card {k. k < 7 \<and> ?c' ! k \<noteq> c ! k} = 2" by simp
  with bitflip_rand_two [OF assms] show ?thesis by simp
qed

theorem bitflip_rand_two_positions_witness:
  "length [1, 0, 1, 1, 0, 1, 0 :: int] = 7 \<and> set [1, 0, 1, 1, 0, 1, 0 :: int] \<subseteq> {0, 1} \<and>
   (0 :: int) \<le> 4 \<and> (4 :: int) \<le> 6 \<and> (0 :: int) \<le> 0 \<and> (0 :: int) \<le> 6 \<and> (0 :: int) \<noteq> 4 \<and>
   set [4, 4 :: int] \<subseteq> {4} \<and>
   bitflip_rand [4, 4, 4, 0, 5] [1, 0, 1, 1, 0, 1, 0] 2 =
     Some (Inr [0, 0, 1, 1, 1, 1, 0], [0, 0, 1, 1, 1, 1, 0])"
  using bitflip_rand_two_positions [of "[1, 0, 1, 1, 0, 1, 0]" 4 0 "[4, 4]" "[5]"]
  by simp

end
